theory Spec2Isabelle
  imports Complex_Main "HOL-Library.Multiset"
begin

section \<open>Battle simulation of the Pokemon MCP server\<close>

text \<open>
  A shallow embedding of \<^verbatim>\<open>src/tools/battle_simulation.py\<close> and of
  \<^verbatim>\<open>PokemonDatabase.get_type_effectiveness\<close> from \<^verbatim>\<open>src/adapters/pokeapi_client.py\<close>.

  Conventions of the embedding.
  \<^item> Python \<^verbatim>\<open>int\<close> is \<open>int\<close>; the loop counter \<^verbatim>\<open>turn_count\<close>, which starts at 0 and is
    only incremented, is \<open>nat\<close>.
  \<^item> Python \<^verbatim>\<open>float\<close> is \<open>rat\<close>: arithmetic is exact, rounding is not modelled. No statement
    below depends on the value of a product of floats.
  \<^item> The module \<^verbatim>\<open>random\<close> is an infinite sequence of raw draws \<open>nat \<Rightarrow> nat\<close> passed through
    every function that draws; each of \<^verbatim>\<open>random()\<close>, \<^verbatim>\<open>randint\<close>, \<^verbatim>\<open>uniform\<close> and \<^verbatim>\<open>choice\<close>
    consumes one raw draw and maps it into its range.
  \<^item> Exceptions are values of \<open>py_error\<close>; a function that can raise returns \<open>py_error + 'a\<close>.
  \<^item> The two \<^verbatim>\<open>Pokemon\<close> objects are mutated in place by the source. The functions on one
    object take it and return it updated; the battle keeps both objects in its state and
    refers to them through \<open>ref\<close>, because the source compares objects with \<^verbatim>\<open>==\<close>, which for
    a dataclass is equality of all fields, not identity.
\<close>

subsection \<open>Data model\<close>

datatype py_error = ZeroDivisionError | ValueError | IndexError

text \<open>The constants of class \<^verbatim>\<open>StatusEffect\<close>.\<close>

definition BURN :: string where "BURN = ''burn''"
definition POISON :: string where "POISON = ''poison''"
definition PARALYSIS :: string where "PARALYSIS = ''paralysis''"
definition SLEEP :: string where "SLEEP = ''sleep''"
definition FREEZE :: string where "FREEZE = ''freeze''"
definition CONFUSION :: string where "CONFUSION = ''confusion''"

lemmas StatusEffect_defs = BURN_def POISON_def PARALYSIS_def SLEEP_def FREEZE_def CONFUSION_def

text \<open>
  A battle move is the dict with the keys \<^verbatim>\<open>name\<close>, \<^verbatim>\<open>type\<close>, \<^verbatim>\<open>power\<close>, \<^verbatim>\<open>accuracy\<close>,
  \<^verbatim>\<open>damage_class\<close> that \<^verbatim>\<open>prepare_pokemon_for_battle\<close> builds; \<^verbatim>\<open>power\<close> and \<^verbatim>\<open>accuracy\<close> are ints
  there.
\<close>

record Move =
  m_name :: string
  m_type :: string
  m_power :: int
  m_accuracy :: int
  m_damage_class :: string

record Pokemon =
  name :: string
  hp :: int
  max_hp :: int
  attack :: int
  defense :: int
  special_attack :: int
  special_defense :: int
  speed :: int
  types :: "string list"
  moves :: "Move list"
  status_effects :: "string list"
  status_turns :: "string \<rightharpoonup> int"

text \<open>An entry of \<^verbatim>\<open>turns\<close>: the dict \<^verbatim>\<open>{'turn': turn_count, 'actions': [...]}\<close>.\<close>

record TurnDetails =
  turn :: nat
  actions :: "string list"

record BattleResult =
  winner :: "string option"
  turns :: "TurnDetails list"
  battle_summary :: string

subsection \<open>Strings\<close>

definition digit_char :: "nat \<Rightarrow> char" where
  "digit_char d = ''0123456789'' ! d"

fun str_nat :: "nat \<Rightarrow> string" where
  "str_nat n = (if n < 10 then [digit_char n] else str_nat (n div 10) @ [digit_char (n mod 10)])"

declare str_nat.simps [simp del]

definition str_int :: "int \<Rightarrow> string" where
  "str_int i = (if i < 0 then ''-'' @ str_nat (nat (- i)) else str_nat (nat i))"

text \<open>\<^verbatim>\<open>sep.join(xs)\<close>.\<close>

fun join :: "string \<Rightarrow> string list \<Rightarrow> string" where
  "join sep [] = []"
| "join sep [x] = x"
| "join sep (x # y # ys) = x @ sep @ join sep (y # ys)"

text \<open>\<^verbatim>\<open>str.lower\<close> on ASCII letters; other characters are left as they are.\<close>

definition lower_char :: "char \<Rightarrow> char" where
  "lower_char c =
     (case map_of (zip ''ABCDEFGHIJKLMNOPQRSTUVWXYZ'' ''abcdefghijklmnopqrstuvwxyz'') c of
        None \<Rightarrow> c | Some l \<Rightarrow> l)"

definition lower :: "string \<Rightarrow> string" where
  "lower s = map lower_char s"

subsection \<open>Numbers\<close>

text \<open>\<^verbatim>\<open>int(x)\<close> of a float truncates towards zero.\<close>

definition py_int :: "rat \<Rightarrow> int" where
  "py_int x = (if 0 \<le> x then \<lfloor>x\<rfloor> else \<lceil>x\<rceil>)"

text \<open>\<^verbatim>\<open>d.get(k, dflt)\<close>.\<close>

definition dict_get :: "('k \<rightharpoonup> 'v) \<Rightarrow> 'k \<Rightarrow> 'v \<Rightarrow> 'v" where
  "dict_get d k dflt = (case d k of None \<Rightarrow> dflt | Some v \<Rightarrow> v)"

text \<open>\<^verbatim>\<open>xs.remove(x)\<close> deletes the first occurrence and raises ValueError when there is none.\<close>

definition list_remove :: "'a \<Rightarrow> 'a list \<Rightarrow> py_error + 'a list" where
  "list_remove x xs = (if x \<in> set xs then Inr (remove1 x xs) else Inl ValueError)"

subsection \<open>The random source\<close>

type_synonym rng = "nat \<Rightarrow> nat"

definition rng_tail :: "rng \<Rightarrow> rng" where
  "rng_tail g = (\<lambda>i. g (Suc i))"

text \<open>\<^verbatim>\<open>random.random()\<close>: a multiple of \<open>2\<^sup>-\<^sup>5\<^sup>3\<close> in \<open>[0, 1)\<close>.\<close>

definition random_random :: "rng \<Rightarrow> rat \<times> rng" where
  "random_random g = (of_nat (g 0 mod 2 ^ 53) / 2 ^ 53, rng_tail g)"

text \<open>\<^verbatim>\<open>random.randint(a, b)\<close>, called with \<open>a \<le> b\<close> only.\<close>

definition random_randint :: "int \<Rightarrow> int \<Rightarrow> rng \<Rightarrow> int \<times> rng" where
  "random_randint a b g = (a + int (g 0 mod nat (b - a + 1)), rng_tail g)"

text \<open>\<^verbatim>\<open>random.uniform(a, b)\<close> is \<^verbatim>\<open>a + (b - a) * random()\<close>.\<close>

definition random_uniform :: "rat \<Rightarrow> rat \<Rightarrow> rng \<Rightarrow> rat \<times> rng" where
  "random_uniform a b g = (case random_random g of (r, g') \<Rightarrow> (a + (b - a) * r, g'))"

text \<open>\<^verbatim>\<open>random.choice(xs)\<close> raises IndexError on an empty list.\<close>

definition random_choice :: "'a list \<Rightarrow> rng \<Rightarrow> py_error + ('a \<times> rng)" where
  "random_choice xs g =
     (if xs = [] then Inl IndexError else Inr (xs ! (g 0 mod length xs), rng_tail g))"

subsection \<open>StatusEffectManager\<close>

definition major_statuses :: "string list" where
  "major_statuses = [BURN, POISON, PARALYSIS, SLEEP, FREEZE]"

text \<open>
  One pass of the loop \<^verbatim>\<open>for existing_status in major_statuses\<close> of
  \<^verbatim>\<open>apply_status_effect\<close>: the guarded \<^verbatim>\<open>remove\<close> and the \<^verbatim>\<open>pop\<close>.
\<close>

definition remove_existing :: "string \<Rightarrow> Pokemon \<Rightarrow> Pokemon" where
  "remove_existing existing_status pokemon =
     (if existing_status \<in> set (status_effects pokemon)
      then pokemon\<lparr>status_effects := remove1 existing_status (status_effects pokemon),
                   status_turns := (status_turns pokemon)(existing_status := None)\<rparr>
      else pokemon)"

definition apply_status_effect :: "Pokemon \<Rightarrow> string \<Rightarrow> rng \<Rightarrow> string \<times> Pokemon \<times> rng" where
  "apply_status_effect pokemon status g =
     (if status \<in> set (status_effects pokemon)
      then (name pokemon @ '' is already '' @ status @ ''!'', pokemon, g)
      else
        let p1 = (if status \<in> set [BURN, POISON, PARALYSIS, SLEEP, FREEZE]
                  then fold remove_existing major_statuses pokemon else pokemon);
            p2 = p1\<lparr>status_effects := status_effects p1 @ [status]\<rparr>;
            (p3, g') =
              (if status = SLEEP
               then (case random_randint 1 3 g of
                       (n, g') \<Rightarrow> (p2\<lparr>status_turns := (status_turns p2)(status \<mapsto> n)\<rparr>, g'))
               else if status = CONFUSION
               then (case random_randint 2 5 g of
                       (n, g') \<Rightarrow> (p2\<lparr>status_turns := (status_turns p2)(status \<mapsto> n)\<rparr>, g'))
               else (p2, g))
        in (name pokemon @ '' is now '' @ status @ ''!'', p3, g'))"

text \<open>
  \<^verbatim>\<open>process_status_damage\<close>: the loop over a copy of the status list accumulates the damage
  and the messages.
\<close>

fun status_damage_loop :: "Pokemon \<Rightarrow> string list \<Rightarrow> int \<Rightarrow> string list \<Rightarrow> int \<times> string list" where
  "status_damage_loop pokemon [] damage messages = (damage, messages)"
| "status_damage_loop pokemon (status # rest) damage messages =
     (if status = BURN then
        (let burn_damage = max 1 (max_hp pokemon div 16)
         in status_damage_loop pokemon rest (damage + burn_damage)
              (messages @ [name pokemon @ '' is hurt by its burn! (-'' @ str_int burn_damage @ '' HP)'']))
      else if status = POISON then
        (let poison_damage = max 1 (max_hp pokemon div 8)
         in status_damage_loop pokemon rest (damage + poison_damage)
              (messages @ [name pokemon @ '' is hurt by poison! (-'' @ str_int poison_damage @ '' HP)'']))
      else status_damage_loop pokemon rest damage messages)"

definition process_status_damage :: "Pokemon \<Rightarrow> int \<times> string" where
  "process_status_damage pokemon =
     (case status_damage_loop pokemon (status_effects pokemon) 0 [] of
        (damage, messages) \<Rightarrow> (damage, join ''; '' messages))"

text \<open>
  \<^verbatim>\<open>can_move\<close>: the loop runs over a copy of the status list (first argument) while the
  object itself is updated. The result is \<^verbatim>\<open>(can_move, message)\<close>, the updated object and
  the random source.
\<close>

fun can_move_loop ::
  "string list \<Rightarrow> Pokemon \<Rightarrow> rng \<Rightarrow> string list \<Rightarrow> py_error + ((bool \<times> string) \<times> Pokemon \<times> rng)" where
  "can_move_loop [] pokemon g messages =
     Inr ((True, if messages \<noteq> [] then join ''; '' messages else []), pokemon, g)"
| "can_move_loop (status # rest) pokemon g messages =
     (if status = PARALYSIS then
        (case random_random g of (r, g') \<Rightarrow>
           if r < 1 / 4
           then Inr ((False, name pokemon @ '' is paralyzed and can't move!''), pokemon, g')
           else can_move_loop rest pokemon g' messages)
      else if status = SLEEP then
        (let turns_left = dict_get (status_turns pokemon) status 0 in
         if turns_left > 0 then
           (let pokemon = pokemon\<lparr>status_turns := (status_turns pokemon)(status \<mapsto> turns_left - 1)\<rparr> in
            if dict_get (status_turns pokemon) status 0 \<le> 0 then
              (case list_remove SLEEP (status_effects pokemon) of
                 Inl e \<Rightarrow> Inl e
               | Inr l \<Rightarrow>
                   Inr ((True, name pokemon @ '' woke up!''),
                        pokemon\<lparr>status_effects := l,
                                status_turns := (status_turns pokemon)(SLEEP := None)\<rparr>, g))
            else Inr ((False, name pokemon @ '' is fast asleep!''), pokemon, g))
         else can_move_loop rest pokemon g messages)
      else if status = FREEZE then
        (case random_random g of (r, g') \<Rightarrow>
           if r < 1 / 5 then
             (case list_remove FREEZE (status_effects pokemon) of
                Inl e \<Rightarrow> Inl e
              | Inr l \<Rightarrow>
                  Inr ((True, name pokemon @ '' thawed out!''), pokemon\<lparr>status_effects := l\<rparr>, g'))
           else Inr ((False, name pokemon @ '' is frozen solid!''), pokemon, g'))
      else if status = CONFUSION then
        (let turns_left = dict_get (status_turns pokemon) status 0 in
         if turns_left > 0 then
           (let pokemon = pokemon\<lparr>status_turns := (status_turns pokemon)(status \<mapsto> turns_left - 1)\<rparr> in
            if dict_get (status_turns pokemon) status 0 \<le> 0 then
              (case list_remove CONFUSION (status_effects pokemon) of
                 Inl e \<Rightarrow> Inl e
               | Inr l \<Rightarrow>
                   can_move_loop rest
                     (pokemon\<lparr>status_effects := l,
                              status_turns := (status_turns pokemon)(CONFUSION := None)\<rparr>) g
                     (messages @ [name pokemon @ '' snapped out of confusion!'']))
            else
              (case random_random g of (r, g') \<Rightarrow>
                 if r < 1 / 2
                 then Inr ((False, name pokemon @ '' is confused and hurt itself!''), pokemon, g')
                 else can_move_loop rest pokemon g' messages))
         else can_move_loop rest pokemon g messages)
      else can_move_loop rest pokemon g messages)"

definition can_move :: "Pokemon \<Rightarrow> rng \<Rightarrow> py_error + ((bool \<times> string) \<times> Pokemon \<times> rng)" where
  "can_move pokemon g = can_move_loop (status_effects pokemon) pokemon g []"

definition modify_damage :: "Pokemon \<Rightarrow> int \<Rightarrow> bool \<Rightarrow> int" where
  "modify_damage pokemon damage is_physical =
     (if BURN \<in> set (status_effects pokemon) \<and> is_physical then damage div 2 else damage)"

subsection \<open>BattleSimulator\<close>

text \<open>
  The table \<^verbatim>\<open>type_effectiveness_view\<close> read by \<^verbatim>\<open>get_type_effectiveness\<close>: a pair without a
  row leaves the product as it is.
\<close>

type_synonym type_table = "string \<times> string \<rightharpoonup> rat"

definition get_type_effectiveness :: "type_table \<Rightarrow> string \<Rightarrow> string list \<Rightarrow> rat" where
  "get_type_effectiveness db attacking_type defending_types =
     fold (\<lambda>defending_type total_effectiveness.
             case db (attacking_type, defending_type) of
               None \<Rightarrow> total_effectiveness
             | Some row \<Rightarrow> total_effectiveness * row)
          defending_types 1"

definition move_status_map :: "(string \<times> string \<times> rat) list" where
  "move_status_map =
     [(''flamethrower'', BURN, 1 / 10),
      (''fire-blast'', BURN, 1 / 10),
      (''ember'', BURN, 1 / 10),
      (''fire-punch'', BURN, 1 / 10),
      (''thunderbolt'', PARALYSIS, 1 / 10),
      (''thunder-shock'', PARALYSIS, 1 / 10),
      (''thunder'', PARALYSIS, 3 / 10),
      (''nuzzle'', PARALYSIS, 1),
      (''poison-sting'', POISON, 3 / 10),
      (''toxic'', POISON, 9 / 10),
      (''poison-jab'', POISON, 3 / 10),
      (''sludge-bomb'', POISON, 3 / 10),
      (''sleep-powder'', SLEEP, 3 / 4),
      (''spore'', SLEEP, 1),
      (''hypnosis'', SLEEP, 3 / 5),
      (''ice-beam'', FREEZE, 1 / 10),
      (''blizzard'', FREEZE, 1 / 10),
      (''confusion'', CONFUSION, 1 / 10),
      (''psybeam'', CONFUSION, 1 / 10)]"

definition get_move_status_chance :: "string \<Rightarrow> string option \<times> rat" where
  "get_move_status_chance move_name =
     (case map_of move_status_map (lower move_name) of
        None \<Rightarrow> (None, 0)
      | Some (status, chance) \<Rightarrow> (Some status, chance))"

text \<open>
  Lines 208 to 230 of \<^verbatim>\<open>_calculate_damage\<close>: the damage formula with its two random draws,
  up to the call of \<^verbatim>\<open>modify_damage\<close>.
\<close>

definition damage_roll ::
  "rat \<Rightarrow> Pokemon \<Rightarrow> Move \<Rightarrow> int \<Rightarrow> int \<Rightarrow> bool \<Rightarrow> rng \<Rightarrow> int \<times> bool \<times> rng" where
  "damage_roll effectiveness attacker move attack_stat defense_stat is_physical g =
     (let level = (50 :: rat);
          base_damage =
            ((2 * level / 5 + 2) * of_int (m_power move) * of_int attack_stat
               / of_int defense_stat) / 50 + 2;
          base_damage = base_damage * effectiveness;
          (r, g) = random_random g;
          is_critical = (r < 1 / 16);
          base_damage = (if is_critical then base_damage * (3 / 2) else base_damage);
          (u, g) = random_uniform (17 / 20) 1 g;
          damage = base_damage * u;
          damage = (if m_type move \<in> set (types attacker) then damage * (3 / 2) else damage);
          damage = modify_damage attacker (py_int damage) is_physical
      in (damage, is_critical, g))"

text \<open>
  Lines 232 to 238: the status a move may inflict. The draw is made only when the move has
  an entry in the table.
\<close>

definition status_roll :: "Pokemon \<Rightarrow> Move \<Rightarrow> rng \<Rightarrow> string option \<times> Pokemon \<times> rng" where
  "status_roll defender move g =
     (case get_move_status_chance (m_name move) of
        (None, status_chance) \<Rightarrow> (None, defender, g)
      | (Some status_effect, status_chance) \<Rightarrow>
          if status_effect = [] then (None, defender, g)
          else
            case random_random g of (r, g) \<Rightarrow>
              if r < status_chance then
                (case apply_status_effect defender status_effect g of
                   (status_message, defender, g) \<Rightarrow> (Some status_effect, defender, g))
              else (None, defender, g))"

text \<open>
  \<^verbatim>\<open>_calculate_damage\<close> returns \<^verbatim>\<open>(damage, is_critical, status_inflicted)\<close>; the model returns
  with it the defender, which \<^verbatim>\<open>apply_status_effect\<close> may have updated, and the random
  source. The float division by \<^verbatim>\<open>defense_stat\<close> raises ZeroDivisionError at 0.
\<close>

definition calculate_damage ::
  "type_table \<Rightarrow> Pokemon \<Rightarrow> Pokemon \<Rightarrow> Move \<Rightarrow> rng
     \<Rightarrow> py_error + ((int \<times> bool \<times> string option) \<times> Pokemon \<times> rng)" where
  "calculate_damage db attacker defender move g =
     (if m_power move \<le> 0 then Inr ((0, False, None), defender, g)
      else
        let effectiveness = get_type_effectiveness db (m_type move) (types defender);
            is_physical = (m_damage_class move = ''physical'');
            attack_stat = (if is_physical then attack attacker else special_attack attacker);
            defense_stat = (if is_physical then defense defender else special_defense defender)
        in if defense_stat = 0 then Inl ZeroDivisionError
           else
             case damage_roll effectiveness attacker move attack_stat defense_stat is_physical g of
               (damage, is_critical, g) \<Rightarrow>
             case status_roll defender move g of
               (status_inflicted, defender, g) \<Rightarrow>
                 Inr ((max 1 damage, is_critical, status_inflicted), defender, g))"

text \<open>
  The state of \<^verbatim>\<open>simulate_battle\<close>: the two objects, the random source and the locals
  \<^verbatim>\<open>current_hp1\<close>, \<^verbatim>\<open>current_hp2\<close>, \<^verbatim>\<open>turns\<close> and \<^verbatim>\<open>turn_details\<close>. The local \<^verbatim>\<open>turn_count\<close> is an
  argument of the loop.
\<close>

record Battle =
  pokemon1 :: Pokemon
  pokemon2 :: Pokemon
  rand :: rng
  current_hp1 :: int
  current_hp2 :: int
  turns_so_far :: "TurnDetails list"
  turn_details :: TurnDetails

text \<open>
  A variable holding one of the two objects. \<^verbatim>\<open>a == b\<close> on two such variables compares the
  current field values of the objects they hold.
\<close>

datatype ref = Ref1 | Ref2

fun deref :: "Battle \<Rightarrow> ref \<Rightarrow> Pokemon" where
  "deref s Ref1 = pokemon1 s"
| "deref s Ref2 = pokemon2 s"

fun store :: "ref \<Rightarrow> Pokemon \<Rightarrow> Battle \<Rightarrow> Battle" where
  "store Ref1 p s = s\<lparr>pokemon1 := p\<rparr>"
| "store Ref2 p s = s\<lparr>pokemon2 := p\<rparr>"

definition py_eq :: "Battle \<Rightarrow> ref \<Rightarrow> ref \<Rightarrow> bool" where
  "py_eq s a b = (deref s a = deref s b)"

text \<open>\<^verbatim>\<open>turn_details['actions'].append(msg)\<close>.\<close>

definition append_action :: "string \<Rightarrow> Battle \<Rightarrow> Battle" where
  "append_action msg s =
     s\<lparr>turn_details := (turn_details s)\<lparr>actions := actions (turn_details s) @ [msg]\<rparr>\<rparr>"

text \<open>The text of an attack in the log.\<close>

definition attack_action :: "string \<Rightarrow> Move \<Rightarrow> int \<Rightarrow> string \<Rightarrow> bool \<Rightarrow> string option \<Rightarrow> string" where
  "attack_action attacker_name move damage target_name is_critical status_inflicted =
     attacker_name @ '' used '' @ m_name move @ '' and dealt '' @ str_int damage
       @ '' damage to '' @ target_name
       @ (if is_critical then '' (Critical hit!)'' else [])
       @ (case status_inflicted of
            None \<Rightarrow> []
          | Some st \<Rightarrow> '' '' @ target_name @ '' is now '' @ st @ ''!'')"

text \<open>Lines 254 to 264: the order of the round.\<close>

definition turn_order :: "Battle \<Rightarrow> ref \<times> ref" where
  "turn_order s =
     (let speed1 = speed (pokemon1 s);
          speed2 = speed (pokemon2 s);
          speed1 = (if PARALYSIS \<in> set (status_effects (pokemon1 s)) then speed1 div 2 else speed1);
          speed2 = (if PARALYSIS \<in> set (status_effects (pokemon2 s)) then speed2 div 2 else speed2);
          first_pokemon = (if speed1 \<ge> speed2 then Ref1 else Ref2);
          second_pokemon = (if py_eq s first_pokemon Ref1 then Ref2 else Ref1)
      in (first_pokemon, second_pokemon))"

text \<open>
  Lines 279 to 302: the attack of \<^verbatim>\<open>first_pokemon\<close>. The move is drawn twice (lines 279
  and 280); the second draw is the one used.
\<close>

definition first_attack ::
  "type_table \<Rightarrow> ref \<Rightarrow> ref \<Rightarrow> Move list \<Rightarrow> Battle \<Rightarrow> py_error + Battle" where
  "first_attack db first_pokemon second_pokemon attacking_moves s =
     (case random_choice attacking_moves (rand s) of
        Inl e \<Rightarrow> Inl e
      | Inr (move, g) \<Rightarrow>
      case random_choice attacking_moves g of
        Inl e \<Rightarrow> Inl e
      | Inr (move, g) \<Rightarrow>
      let target = (if py_eq s first_pokemon Ref1 then second_pokemon else Ref1)
      in case calculate_damage db (deref s first_pokemon) (deref s target) move g of
           Inl e \<Rightarrow> Inl e
         | Inr ((damage, is_critical, status_inflicted), defender, g) \<Rightarrow>
             let s = store target defender (s\<lparr>rand := g\<rparr>);
                 (s, target_name) =
                   (if py_eq s first_pokemon Ref1
                    then (s\<lparr>current_hp2 := max 0 (current_hp2 s - damage)\<rparr>,
                          name (deref s second_pokemon))
                    else (s\<lparr>current_hp1 := max 0 (current_hp1 s - damage)\<rparr>,
                          name (pokemon1 s)))
             in Inr (append_action
                       (attack_action (name (deref s first_pokemon)) move damage
                          target_name is_critical status_inflicted) s))"

text \<open>Lines 266 to 302: the turn of \<^verbatim>\<open>first_pokemon\<close>.\<close>

definition first_turn :: "type_table \<Rightarrow> ref \<Rightarrow> ref \<Rightarrow> Battle \<Rightarrow> py_error + Battle" where
  "first_turn db first_pokemon second_pokemon s =
     (case can_move (deref s first_pokemon) (rand s) of
        Inl e \<Rightarrow> Inl e
      | Inr ((can, status_msg), p, g) \<Rightarrow>
          let s = store first_pokemon p (s\<lparr>rand := g\<rparr>);
              s = (if status_msg \<noteq> [] then append_action status_msg s else s)
          in if can then
               (if moves (deref s first_pokemon) = [] then
                  Inr (append_action
                         (name (deref s first_pokemon) @ '' has no moves and cannot attack!'') s)
                else
                  let attacking_moves = filter (\<lambda>m. m_power m > 0) (moves (deref s first_pokemon))
                  in if attacking_moves = [] then
                       Inr (append_action
                              (name (deref s first_pokemon)
                                 @ '' has no attacking moves and struggles helplessly!'') s)
                     else first_attack db first_pokemon second_pokemon attacking_moves s)
             else Inr s)"

text \<open>
  Lines 322 to 344: the attack of \<^verbatim>\<open>second_pokemon\<close>, with one draw of the move. Its target
  is \<^verbatim>\<open>first_pokemon\<close>.
\<close>

definition second_attack ::
  "type_table \<Rightarrow> ref \<Rightarrow> ref \<Rightarrow> Move list \<Rightarrow> Battle \<Rightarrow> py_error + Battle" where
  "second_attack db first_pokemon second_pokemon attacking_moves s =
     (case random_choice attacking_moves (rand s) of
        Inl e \<Rightarrow> Inl e
      | Inr (move, g) \<Rightarrow>
      case calculate_damage db (deref s second_pokemon) (deref s first_pokemon) move g of
        Inl e \<Rightarrow> Inl e
      | Inr ((damage, is_critical, status_inflicted), defender, g) \<Rightarrow>
          let s = store first_pokemon defender (s\<lparr>rand := g\<rparr>);
              (s, target_name) =
                (if py_eq s second_pokemon Ref1
                 then (s\<lparr>current_hp2 := max 0 (current_hp2 s - damage)\<rparr>,
                       name (deref s first_pokemon))
                 else (s\<lparr>current_hp1 := max 0 (current_hp1 s - damage)\<rparr>,
                       (if py_eq s second_pokemon Ref1 then name (pokemon2 s)
                        else name (pokemon1 s))))
          in Inr (append_action
                    (attack_action (name (deref s second_pokemon)) move damage
                       target_name is_critical status_inflicted) s))"

text \<open>Lines 309 to 344: the turn of \<^verbatim>\<open>second_pokemon\<close>.\<close>

definition second_turn :: "type_table \<Rightarrow> ref \<Rightarrow> ref \<Rightarrow> Battle \<Rightarrow> py_error + Battle" where
  "second_turn db first_pokemon second_pokemon s =
     (case can_move (deref s second_pokemon) (rand s) of
        Inl e \<Rightarrow> Inl e
      | Inr ((can, status_msg), p, g) \<Rightarrow>
          let s = store second_pokemon p (s\<lparr>rand := g\<rparr>);
              s = (if status_msg \<noteq> [] then append_action status_msg s else s)
          in if can \<and> current_hp1 s > 0 \<and> current_hp2 s > 0 then
               (if moves (deref s second_pokemon) = [] then
                  Inr (append_action
                         (name (deref s second_pokemon) @ '' has no moves and cannot attack!'') s)
                else
                  let attacking_moves = filter (\<lambda>m. m_power m > 0) (moves (deref s second_pokemon))
                  in if attacking_moves = [] then
                       Inr (append_action
                              (name (deref s second_pokemon)
                                 @ '' has no attacking moves and struggles helplessly!'') s)
                     else second_attack db first_pokemon second_pokemon attacking_moves s)
             else Inr s)"

text \<open>Lines 347 to 355: one pass of the loop over \<^verbatim>\<open>[(pokemon1, ...), (pokemon2, ...)]\<close>.\<close>

definition end_of_turn :: "ref \<Rightarrow> Battle \<Rightarrow> Battle" where
  "end_of_turn pkmn s =
     (if (py_eq s pkmn Ref1 \<and> current_hp1 s > 0) \<or> (py_eq s pkmn Ref2 \<and> current_hp2 s > 0) then
        (case process_status_damage (deref s pkmn) of
           (status_damage, status_msg) \<Rightarrow>
             if status_damage > 0 then
               append_action status_msg
                 (if py_eq s pkmn Ref1
                  then s\<lparr>current_hp1 := max 0 (current_hp1 s - status_damage)\<rparr>
                  else s\<lparr>current_hp2 := max 0 (current_hp2 s - status_damage)\<rparr>)
             else s)
      else s)"

text \<open>
  The body of the \<^verbatim>\<open>while\<close> loop, with \<^verbatim>\<open>turn_count\<close> already incremented. The boolean of the
  result says that the body left the loop through \<^verbatim>\<open>break\<close>.
\<close>

definition battle_round :: "type_table \<Rightarrow> nat \<Rightarrow> Battle \<Rightarrow> py_error + (Battle \<times> bool)" where
  "battle_round db turn_count s =
     (let s = s\<lparr>turn_details := \<lparr>turn = turn_count, actions = []\<rparr>\<rparr>;
          (first_pokemon, second_pokemon) = turn_order s
      in case first_turn db first_pokemon second_pokemon s of
           Inl e \<Rightarrow> Inl e
         | Inr s \<Rightarrow>
             if current_hp1 s \<le> 0 \<or> current_hp2 s \<le> 0
             then Inr (s\<lparr>turns_so_far := turns_so_far s @ [turn_details s]\<rparr>, True)
             else
               case second_turn db first_pokemon second_pokemon s of
                 Inl e \<Rightarrow> Inl e
               | Inr s \<Rightarrow>
                   let s = end_of_turn Ref1 s;
                       s = end_of_turn Ref2 s;
                       s = s\<lparr>turns_so_far := turns_so_far s @ [turn_details s]\<rparr>
                   in Inr (s, current_hp1 s \<le> 0 \<or> current_hp2 s \<le> 0))"

definition max_turns :: nat where
  "max_turns = 100"

function battle_loop :: "type_table \<Rightarrow> nat \<Rightarrow> Battle \<Rightarrow> py_error + Battle" where
  "battle_loop db turn_count s =
     (if current_hp1 s > 0 \<and> current_hp2 s > 0 \<and> turn_count < max_turns then
        (case battle_round db (turn_count + 1) s of
           Inl e \<Rightarrow> Inl e
         | Inr (s', break) \<Rightarrow> if break then Inr s' else battle_loop db (turn_count + 1) s')
      else Inr s)"
  by pat_completeness auto
termination
  by (relation "measure (\<lambda>(db, turn_count, s). max_turns - turn_count)") auto

declare battle_loop.simps [simp del]

text \<open>Lines 244 to 248: the locals before the loop.\<close>

definition initial_battle :: "Pokemon \<Rightarrow> Pokemon \<Rightarrow> rng \<Rightarrow> Battle" where
  "initial_battle p1 p2 g =
     \<lparr>pokemon1 = p1, pokemon2 = p2, rand = g, current_hp1 = hp p1, current_hp2 = hp p2,
      turns_so_far = [], turn_details = \<lparr>turn = 0, actions = []\<rparr>\<rparr>"

text \<open>Lines 363 to 374: the result built from the state after the loop.\<close>

definition battle_result :: "Battle \<Rightarrow> BattleResult" where
  "battle_result s =
     (let winner = (if current_hp1 s > 0 then Some (name (pokemon1 s))
                    else if current_hp2 s > 0 then Some (name (pokemon2 s))
                    else None);
          battle_summary =
            (case winner of
               Some w \<Rightarrow>
                 if w \<noteq> [] then w @ '' won in '' @ str_nat (length (turns_so_far s)) @ '' turns''
                 else ''Battle ended in a draw''
             | None \<Rightarrow> ''Battle ended in a draw'')
      in \<lparr>winner = winner, turns = turns_so_far s, battle_summary = battle_summary\<rparr>)"

text \<open>
  \<^verbatim>\<open>simulate_battle\<close> returns the \<^verbatim>\<open>BattleResult\<close>; the model returns with it the state after
  the loop, which holds the two objects as the battle left them.
\<close>

definition simulate_battle ::
  "type_table \<Rightarrow> Pokemon \<Rightarrow> Pokemon \<Rightarrow> rng \<Rightarrow> py_error + (BattleResult \<times> Battle)" where
  "simulate_battle db p1 p2 g =
     (case battle_loop db 0 (initial_battle p1 p2 g) of
        Inl e \<Rightarrow> Inl e
      | Inr s \<Rightarrow> Inr (battle_result s, s))"

subsection \<open>Preparing a combatant\<close>

text \<open>
  An entry of \<^verbatim>\<open>data['moves']\<close> as \<^verbatim>\<open>get_pokemon_by_name\<close> builds it: \<^verbatim>\<open>power\<close> and \<^verbatim>\<open>accuracy\<close>
  are nullable integer columns.
\<close>

record MoveData =
  md_name :: string
  md_type :: string
  md_power :: "int option"
  md_accuracy :: "int option"
  md_damage_class :: string

text \<open>
  The dict \<^verbatim>\<open>data\<close>. A missing key \<^verbatim>\<open>stats\<close>, \<^verbatim>\<open>types\<close> or \<^verbatim>\<open>moves\<close> is the empty map or list that
  \<^verbatim>\<open>data.get\<close> puts in its place.
\<close>

record PokemonData =
  d_identifier :: string
  stats :: "string \<rightharpoonup> int"
  d_types :: "string list"
  d_moves :: "MoveData list"

text \<open>
  The two stat formulas divide by 100 in floating point. The model divides exactly; the
  two agree for every base stat below \<open>2\<^sup>5\<^sup>3\<close> in absolute value, where the float holds
  the product and the quotient exactly. Beyond that the code rounds, or raises
  OverflowError, and the model does not follow it.
\<close>

definition calculate_hp :: "int \<Rightarrow> int" where
  "calculate_hp base_hp = py_int (of_int ((base_hp * 2) * 50) / 100 + 50 + 10)"

definition calculate_stat :: "int \<Rightarrow> int" where
  "calculate_stat base_stat = py_int (of_int ((base_stat * 2) * 50) / 100 + 5)"

text \<open>Python truth of an optional int: neither \<^verbatim>\<open>None\<close> nor 0.\<close>

definition truthy :: "int option \<Rightarrow> bool" where
  "truthy v = (case v of None \<Rightarrow> False | Some n \<Rightarrow> n \<noteq> 0)"

text \<open>\<^verbatim>\<open>v or d\<close> on an optional int.\<close>

definition or_else :: "int option \<Rightarrow> int \<Rightarrow> int" where
  "or_else v d = (case v of None \<Rightarrow> d | Some n \<Rightarrow> if n \<noteq> 0 then n else d)"

definition battle_move :: "MoveData \<Rightarrow> Move" where
  "battle_move move =
     \<lparr>m_name = md_name move, m_type = md_type move, m_power = or_else (md_power move) 0,
      m_accuracy = or_else (md_accuracy move) 100, m_damage_class = md_damage_class move\<rparr>"

definition prepare_pokemon_for_battle :: "PokemonData \<Rightarrow> Pokemon" where
  "prepare_pokemon_for_battle data =
     (let base_hp = dict_get (stats data) ''hp'' 35;
          base_attack = dict_get (stats data) ''attack'' 50;
          base_defense = dict_get (stats data) ''defense'' 50;
          base_sp_attack = dict_get (stats data) ''special-attack'' 50;
          base_sp_defense = dict_get (stats data) ''special-defense'' 50;
          base_speed = dict_get (stats data) ''speed'' 50;
          scaled_hp = calculate_hp base_hp
      in \<lparr>name = d_identifier data,
          hp = scaled_hp,
          max_hp = scaled_hp,
          attack = calculate_stat base_attack,
          defense = calculate_stat base_defense,
          special_attack = calculate_stat base_sp_attack,
          special_defense = calculate_stat base_sp_defense,
          speed = calculate_stat base_speed,
          types = d_types data,
          moves = map battle_move (filter (\<lambda>move. truthy (md_power move)) (take 4 (d_moves data))),
          status_effects = [],
          status_turns = Map.empty\<rparr>)"

subsection \<open>Properties used to state the claims\<close>

text \<open>
  Two objects agree on every field that a battle never writes: all but \<^verbatim>\<open>status_effects\<close>
  and \<^verbatim>\<open>status_turns\<close>.
\<close>

definition frame :: "Pokemon \<Rightarrow> Pokemon \<Rightarrow> bool" where
  "frame p p' = (p' = p\<lparr>status_effects := status_effects p', status_turns := status_turns p'\<rparr>)"

text \<open>The major conditions a combatant holds, and the invariant that it holds at most one.\<close>

definition majors_held :: "Pokemon \<Rightarrow> string list" where
  "majors_held p = filter (\<lambda>st. st \<in> set major_statuses) (status_effects p)"

definition one_major :: "Pokemon \<Rightarrow> bool" where
  "one_major p = (length (majors_held p) \<le> 1)"

text \<open>The stats that a division of \<^verbatim>\<open>_calculate_damage\<close> can meet are not 0.\<close>

definition sound :: "Pokemon \<Rightarrow> bool" where
  "sound p = (defense p \<noteq> 0 \<and> special_defense p \<noteq> 0)"

text \<open>
  What every step of a battle does to an object: it writes the two status fields only, and
  it keeps the invariant on major conditions.
\<close>

definition evolves :: "Pokemon \<Rightarrow> Pokemon \<Rightarrow> bool" where
  "evolves p p' = (frame p p' \<and> (one_major p \<longrightarrow> one_major p'))"

text \<open>
  What a part of a battle that appends \<^verbatim>\<open>k\<close> entries to \<^verbatim>\<open>turns\<close> does to the state: the
  two objects evolve, and a current HP that is not negative stays so.
\<close>

definition advance :: "nat \<Rightarrow> Battle \<Rightarrow> Battle \<Rightarrow> bool" where
  "advance k s s' =
     (evolves (pokemon1 s) (pokemon1 s') \<and> evolves (pokemon2 s) (pokemon2 s')
      \<and> (0 \<le> current_hp1 s \<longrightarrow> 0 \<le> current_hp1 s')
      \<and> (0 \<le> current_hp2 s \<longrightarrow> 0 \<le> current_hp2 s')
      \<and> length (turns_so_far s') = length (turns_so_far s) + k)"

subsection \<open>Example inputs\<close>

definition metapod_data :: PokemonData where
  "metapod_data =
     \<lparr>d_identifier = ''metapod'', stats = [''hp'' \<mapsto> 50, ''defense'' \<mapsto> 55],
      d_types = [''bug''],
      d_moves =
        [\<lparr>md_name = ''harden'', md_type = ''normal'', md_power = None, md_accuracy = None,
          md_damage_class = ''status''\<rparr>,
         \<lparr>md_name = ''string-shot'', md_type = ''bug'', md_power = None, md_accuracy = Some 95,
          md_damage_class = ''status''\<rparr>,
         \<lparr>md_name = ''iron-defense'', md_type = ''steel'', md_power = Some 0, md_accuracy = None,
          md_damage_class = ''status''\<rparr>,
         \<lparr>md_name = ''electroweb'', md_type = ''electric'', md_power = None, md_accuracy = None,
          md_damage_class = ''status''\<rparr>,
         \<lparr>md_name = ''bug-bite'', md_type = ''bug'', md_power = Some 60, md_accuracy = Some 100,
          md_damage_class = ''physical''\<rparr>]\<rparr>"

definition pikachu_data :: PokemonData where
  "pikachu_data =
     \<lparr>d_identifier = ''pikachu'', stats = [''hp'' \<mapsto> 35, ''speed'' \<mapsto> 90],
      d_types = [''electric''],
      d_moves =
        [\<lparr>md_name = ''thunder-shock'', md_type = ''electric'', md_power = Some 40,
          md_accuracy = Some 100, md_damage_class = ''special''\<rparr>,
         \<lparr>md_name = ''growl'', md_type = ''normal'', md_power = None, md_accuracy = Some 100,
          md_damage_class = ''status''\<rparr>,
         \<lparr>md_name = ''tail-whip'', md_type = ''normal'', md_power = None, md_accuracy = Some 100,
          md_damage_class = ''status''\<rparr>,
         \<lparr>md_name = ''quick-attack'', md_type = ''normal'', md_power = Some 40,
          md_accuracy = Some 100, md_damage_class = ''physical''\<rparr>,
         \<lparr>md_name = ''thunderbolt'', md_type = ''electric'', md_power = Some 90,
          md_accuracy = Some 100, md_damage_class = ''special''\<rparr>]\<rparr>"

definition zero_draws :: rng where
  "zero_draws = (\<lambda>i. 0)"

definition snorlax :: Pokemon where
  "snorlax =
     \<lparr>name = ''snorlax'', hp = 220, max_hp = 220, attack = 115, defense = 70,
      special_attack = 70, special_defense = 115, speed = 35, types = [''normal''],
      moves = [\<lparr>m_name = ''body-slam'', m_type = ''normal'', m_power = 85, m_accuracy = 100,
                m_damage_class = ''physical''\<rparr>],
      status_effects = [SLEEP], status_turns = [SLEEP \<mapsto> 2]\<rparr>"

definition gengar :: Pokemon where
  "gengar =
     \<lparr>name = ''gengar'', hp = 120, max_hp = 120, attack = 70, defense = 65,
      special_attack = 135, special_defense = 80, speed = 115, types = [''ghost'', ''poison''],
      moves = [\<lparr>m_name = ''lick'', m_type = ''ghost'', m_power = 30, m_accuracy = 100,
                m_damage_class = ''physical''\<rparr>],
      status_effects = [], status_turns = Map.empty\<rparr>"

definition ghost_table :: type_table where
  "ghost_table =
     [(''ghost'', ''normal'') \<mapsto> 0, (''normal'', ''ghost'') \<mapsto> 0, (''ghost'', ''ghost'') \<mapsto> 2]"


text \<open>A random source whose every draw of \<^verbatim>\<open>random.random()\<close> is 0.5.\<close>

definition half_draws :: rng where
  "half_draws = (\<lambda>i. 2 ^ 52)"

definition raichu :: Pokemon where
  "raichu =
     \<lparr>name = ''raichu'', hp = 120, max_hp = 120, attack = 95, defense = 60,
      special_attack = 95, special_defense = 85, speed = 60, types = [''electric''],
      moves = [], status_effects = [PARALYSIS], status_turns = Map.empty\<rparr>"


definition kakuna :: Pokemon where
  "kakuna =
     \<lparr>name = ''kakuna'', hp = 105, max_hp = 105, attack = 30, defense = 55,
      special_attack = 30, special_defense = 30, speed = 40, types = [''bug'', ''poison''],
      moves = [\<lparr>m_name = ''harden'', m_type = ''normal'', m_power = 0, m_accuracy = 0,
                m_damage_class = ''status''\<rparr>],
      status_effects = [], status_turns = Map.empty\<rparr>"

text \<open>
  The message logged at lines 272 and 276 (315 and 319 for the second turn) for a combatant
  that may act and has no move to attack with.
\<close>

definition no_attack_message :: "Pokemon \<Rightarrow> string" where
  "no_attack_message p =
     (if moves p = [] then name p @ '' has no moves and cannot attack!''
      else name p @ '' has no attacking moves and struggles helplessly!'')"

section \<open>Basic facts\<close>

lemma status_distinct:
  "BURN \<noteq> POISON" "BURN \<noteq> PARALYSIS" "BURN \<noteq> SLEEP" "BURN \<noteq> FREEZE" "BURN \<noteq> CONFUSION"
  "POISON \<noteq> BURN" "POISON \<noteq> PARALYSIS" "POISON \<noteq> SLEEP" "POISON \<noteq> FREEZE" "POISON \<noteq> CONFUSION"
  "PARALYSIS \<noteq> BURN" "PARALYSIS \<noteq> POISON" "PARALYSIS \<noteq> SLEEP" "PARALYSIS \<noteq> FREEZE"
  "PARALYSIS \<noteq> CONFUSION"
  "SLEEP \<noteq> BURN" "SLEEP \<noteq> POISON" "SLEEP \<noteq> PARALYSIS" "SLEEP \<noteq> FREEZE" "SLEEP \<noteq> CONFUSION"
  "FREEZE \<noteq> BURN" "FREEZE \<noteq> POISON" "FREEZE \<noteq> PARALYSIS" "FREEZE \<noteq> SLEEP" "FREEZE \<noteq> CONFUSION"
  "CONFUSION \<noteq> BURN" "CONFUSION \<noteq> POISON" "CONFUSION \<noteq> PARALYSIS" "CONFUSION \<noteq> SLEEP"
  "CONFUSION \<noteq> FREEZE"
  by (simp_all add: StatusEffect_defs)

lemma frame_refl [simp]: "frame p p"
  by (simp add: frame_def)

lemma frame_fields:
  "frame p p' \<Longrightarrow>
     name p' = name p \<and> hp p' = hp p \<and> max_hp p' = max_hp p \<and> attack p' = attack p
     \<and> defense p' = defense p \<and> special_attack p' = special_attack p
     \<and> special_defense p' = special_defense p \<and> speed p' = speed p
     \<and> types p' = types p \<and> moves p' = moves p"
  unfolding frame_def by (cases p; cases p'; simp)

lemma frame_upd [simp]:
  "frame p (q\<lparr>status_effects := l\<rparr>) = frame p q"
  "frame p (q\<lparr>status_turns := t\<rparr>) = frame p q"
  unfolding frame_def by (cases p; cases q; auto)+

lemma frame_upd_left [simp]:
  "frame (p\<lparr>status_effects := l\<rparr>) q = frame p q"
  "frame (p\<lparr>status_turns := t\<rparr>) q = frame p q"
  unfolding frame_def by (cases p; cases q; auto)+

lemma frame_trans: "frame p q \<Longrightarrow> frame q r \<Longrightarrow> frame p r"
  unfolding frame_def by (cases p; cases q; cases r; simp)

lemma can_move_loop_paralysis:
  "can_move_loop (PARALYSIS # rest) p g ms =
     (case random_random g of (r, g') \<Rightarrow>
        if r < 1 / 4 then Inr ((False, name p @ '' is paralyzed and can't move!''), p, g')
        else can_move_loop rest p g' ms)"
  by simp

lemma can_move_loop_sleep:
  "can_move_loop (SLEEP # rest) p g ms =
     (let turns_left = dict_get (status_turns p) SLEEP 0 in
      if turns_left > 0 then
        (if turns_left - 1 \<le> 0 then
           (case list_remove SLEEP (status_effects p) of
              Inl e \<Rightarrow> Inl e
            | Inr l \<Rightarrow>
                Inr ((True, name p @ '' woke up!''),
                     p\<lparr>status_effects := l, status_turns := (status_turns p)(SLEEP := None)\<rparr>, g))
         else Inr ((False, name p @ '' is fast asleep!''),
                   p\<lparr>status_turns := (status_turns p)(SLEEP \<mapsto> turns_left - 1)\<rparr>, g))
      else can_move_loop rest p g ms)"
  by (simp add: status_distinct Let_def dict_get_def split: sum.splits)

lemma can_move_loop_freeze:
  "can_move_loop (FREEZE # rest) p g ms =
     (case random_random g of (r, g') \<Rightarrow>
        if r < 1 / 5 then
          (case list_remove FREEZE (status_effects p) of
             Inl e \<Rightarrow> Inl e
           | Inr l \<Rightarrow> Inr ((True, name p @ '' thawed out!''), p\<lparr>status_effects := l\<rparr>, g'))
        else Inr ((False, name p @ '' is frozen solid!''), p, g'))"
  by (simp add: status_distinct)

lemma can_move_loop_confusion:
  "can_move_loop (CONFUSION # rest) p g ms =
     (let turns_left = dict_get (status_turns p) CONFUSION 0 in
      if turns_left > 0 then
        (if turns_left - 1 \<le> 0 then
           (case list_remove CONFUSION (status_effects p) of
              Inl e \<Rightarrow> Inl e
            | Inr l \<Rightarrow>
                can_move_loop rest
                  (p\<lparr>status_effects := l, status_turns := (status_turns p)(CONFUSION := None)\<rparr>) g
                  (ms @ [name p @ '' snapped out of confusion!'']))
         else
           (case random_random g of (r, g') \<Rightarrow>
              if r < 1 / 2
              then Inr ((False, name p @ '' is confused and hurt itself!''),
                        p\<lparr>status_turns := (status_turns p)(CONFUSION \<mapsto> turns_left - 1)\<rparr>, g')
              else can_move_loop rest
                     (p\<lparr>status_turns := (status_turns p)(CONFUSION \<mapsto> turns_left - 1)\<rparr>) g' ms))
      else can_move_loop rest p g ms)"
  by (simp add: status_distinct Let_def dict_get_def split: sum.splits prod.splits)

lemma can_move_loop_other:
  "status \<noteq> PARALYSIS \<Longrightarrow> status \<noteq> SLEEP \<Longrightarrow> status \<noteq> FREEZE \<Longrightarrow> status \<noteq> CONFUSION \<Longrightarrow>
     can_move_loop (status # rest) p g ms = can_move_loop rest p g ms"
  by simp

declare can_move_loop.simps(2) [simp del]

lemma status_cases:
  obtains "status = PARALYSIS" | "status = SLEEP" | "status = FREEZE" | "status = CONFUSION"
  | "status \<noteq> PARALYSIS" "status \<noteq> SLEEP" "status \<noteq> FREEZE" "status \<noteq> CONFUSION"
  by blast

lemma can_move_loop_props:
  "can_move_loop snap p g ms = Inr (r, p', g') \<Longrightarrow>
     frame p p' \<and> mset (status_effects p') \<subseteq># mset (status_effects p)"
proof (induction snap arbitrary: p g ms)
  case Nil
  then show ?case by auto
next
  case (Cons status rest)
  have r: "mset (remove1 CONFUSION (status_effects p)) \<subseteq># mset (status_effects p)"
    by (simp add: diff_subset_eq_self)
  have sub: "\<And>q. mset (status_effects q) \<subseteq># mset (remove1 CONFUSION (status_effects p))
      \<Longrightarrow> mset (status_effects q) \<subseteq># mset (status_effects p)"
    by (erule subset_mset.order_trans) (rule r)
  show ?case
  proof (cases status rule: status_cases)
    case 1
    with Cons.prems Cons.IH show ?thesis
      by (auto simp: can_move_loop_paralysis split: prod.splits if_splits)
  next
    case 2
    with Cons.prems Cons.IH show ?thesis
      by (auto simp: can_move_loop_sleep list_remove_def Let_def split: if_splits)
  next
    case 3
    with Cons.prems show ?thesis
      by (auto simp: can_move_loop_freeze list_remove_def split: prod.splits if_splits)
  next
    case 4
    with Cons.prems show ?thesis
      by (auto simp: can_move_loop_confusion list_remove_def Let_def
            split: prod.splits if_splits dest!: Cons.IH intro: sub)
  next
    case 5
    with Cons.prems Cons.IH show ?thesis
      by (simp add: can_move_loop_other)
  qed
qed

lemma can_move_loop_no_raise:
  "mset snap \<subseteq># mset (status_effects p) \<Longrightarrow> can_move_loop snap p g ms \<noteq> Inl e"
proof (induction snap arbitrary: p g ms)
  case Nil
  then show ?case by simp
next
  case (Cons status rest)
  from Cons.prems have sub: "add_mset status (mset rest) \<subseteq># mset (status_effects p)"
    by simp
  from sub have in_list: "status \<in> set (status_effects p)"
    by (simp add: insert_subset_eq_iff)
  from sub have rest': "mset rest \<subseteq># mset (remove1 status (status_effects p))"
    by (simp add: insert_subset_eq_iff)
  have "mset (remove1 status (status_effects p)) \<subseteq># mset (status_effects p)"
    by (simp add: diff_subset_eq_self)
  with rest' have rest: "mset rest \<subseteq># mset (status_effects p)"
    by (rule subset_mset.order_trans)
  have keep: "\<And>q g ms. status_effects q = status_effects p \<Longrightarrow>
      can_move_loop rest q g ms \<noteq> Inl e"
    using Cons.IH rest by simp
  have drop: "\<And>q g ms. status_effects q = remove1 status (status_effects p) \<Longrightarrow>
      can_move_loop rest q g ms \<noteq> Inl e"
    using Cons.IH rest' by simp
  show ?case
  proof (cases status rule: status_cases)
    case 1
    then show ?thesis
      by (simp add: can_move_loop_paralysis keep split: prod.splits)
  next
    case 2
    with in_list show ?thesis
      by (simp add: can_move_loop_sleep list_remove_def Let_def keep)
  next
    case 3
    with in_list show ?thesis
      by (simp add: can_move_loop_freeze list_remove_def split: prod.splits)
  next
    case 4
    with in_list show ?thesis
      by (simp add: can_move_loop_confusion list_remove_def Let_def keep drop split: prod.splits)
  next
    case 5
    then show ?thesis
      by (simp add: can_move_loop_other keep)
  qed
qed

lemma can_move_no_raise: "can_move p g \<noteq> Inl e"
  unfolding can_move_def by (rule can_move_loop_no_raise) simp

lemma can_move_total: "\<exists>res. can_move p g = Inr res"
  using can_move_no_raise [of p g] by (cases "can_move p g") auto

lemma can_move_props:
  "can_move p g = Inr (r, p', g') \<Longrightarrow>
     frame p p' \<and> mset (status_effects p') \<subseteq># mset (status_effects p)"
  unfolding can_move_def by (rule can_move_loop_props)

lemma deref_store [simp]: "deref (store r p s) r = p"
  by (cases r) simp_all

lemma store_fields [simp]:
  "current_hp1 (store r p s) = current_hp1 s"
  "current_hp2 (store r p s) = current_hp2 s"
  "turn_details (store r p s) = turn_details s"
  "turns_so_far (store r p s) = turns_so_far s"
  "rand (store r p s) = rand s"
  by (cases r; simp)+

lemma append_action_fields [simp]:
  "current_hp1 (append_action m s) = current_hp1 s"
  "current_hp2 (append_action m s) = current_hp2 s"
  "pokemon1 (append_action m s) = pokemon1 s"
  "pokemon2 (append_action m s) = pokemon2 s"
  "turns_so_far (append_action m s) = turns_so_far s"
  "rand (append_action m s) = rand s"
  "actions (turn_details (append_action m s)) = actions (turn_details s) @ [m]"
  "turn (turn_details (append_action m s)) = turn (turn_details s)"
  "deref (append_action m s) r = deref s r"
  by (cases r; simp add: append_action_def)+

lemma calculate_damage_no_raise:
  assumes "sound d"
  shows "calculate_damage db a d move g \<noteq> Inl e"
  using assms
  by (simp add: calculate_damage_def sound_def Let_def split: prod.splits)

section \<open>Invariants of a battle\<close>

lemma remove_existing_effects:
  "status_effects (remove_existing x p) = remove1 x (status_effects p)"
  by (simp add: remove_existing_def remove1_idem)

lemma remove_existing_frame [simp]: "frame p (remove_existing x p)"
  by (simp add: remove_existing_def)

lemma fold_remove_existing_frame: "frame p (fold remove_existing xs p)"
proof (induction xs arbitrary: p)
  case Nil
  show ?case by simp
next
  case (Cons x xs)
  have "frame (remove_existing x p) (fold remove_existing xs (remove_existing x p))"
    by (rule Cons.IH)
  with remove_existing_frame [of p x]
  have "frame p (fold remove_existing xs (remove_existing x p))"
    by (rule frame_trans)
  then show ?case by simp
qed

lemma fold_remove_existing_effects:
  "status_effects (fold remove_existing xs p) = fold remove1 xs (status_effects p)"
  by (induction xs arbitrary: p) (simp_all add: remove_existing_effects)

lemma filter_fold_remove1:
  "filter P (fold remove1 xs l) = fold remove1 xs (filter P l)"
  by (induction xs arbitrary: l) (simp_all add: filter_remove1)

lemma fold_remove1_set: "set (fold remove1 xs l) \<subseteq> set l"
proof (induction xs arbitrary: l)
  case Nil
  show ?case by simp
next
  case (Cons x xs)
  have "set (fold remove1 xs (remove1 x l)) \<subseteq> set (remove1 x l)" by (rule Cons.IH)
  also have "\<dots> \<subseteq> set l" by (rule set_remove1_subset)
  finally show ?case by simp
qed

lemma fold_remove1_keeps:
  "y \<notin> set xs \<Longrightarrow> y \<in> set l \<Longrightarrow> y \<in> set (fold remove1 xs l)"
  by (induction xs arbitrary: l) auto

lemma majors_cleared:
  assumes "one_major p"
  shows "majors_held (fold remove_existing major_statuses p) = []"
proof -
  let ?P = "\<lambda>st. st \<in> set major_statuses"
  from assms have len: "length (filter ?P (status_effects p)) \<le> 1"
    by (simp add: one_major_def majors_held_def)
  have "fold remove1 major_statuses (filter ?P (status_effects p)) = []"
  proof (cases "filter ?P (status_effects p)")
    case Nil
    then show ?thesis by (simp add: major_statuses_def)
  next
    case (Cons m ms)
    with len have ms: "ms = []" by simp
    have "m \<in> set (filter ?P (status_effects p))" using Cons by simp
    then have "m \<in> set major_statuses" by simp
    then show ?thesis
      unfolding Cons ms by (auto simp: major_statuses_def)
  qed
  then show ?thesis
    by (simp add: majors_held_def fold_remove_existing_effects filter_fold_remove1)
qed

lemma confusion_not_major: "CONFUSION \<notin> set major_statuses"
  by (simp add: major_statuses_def status_distinct)

lemma apply_status_effect_frame:
  "apply_status_effect p st g = (msg, p', g') \<Longrightarrow> frame p p'"
  unfolding apply_status_effect_def major_statuses_def [symmetric]
  by (auto simp: Let_def fold_remove_existing_frame split: if_splits prod.splits)

lemma apply_status_effect_effects:
  "apply_status_effect p st g = (msg, p', g') \<Longrightarrow>
     status_effects p' =
       (if st \<in> set (status_effects p) then status_effects p
        else if st \<in> set major_statuses
        then fold remove1 major_statuses (status_effects p) @ [st]
        else status_effects p @ [st])"
  unfolding apply_status_effect_def major_statuses_def [symmetric]
  by (auto simp: Let_def fold_remove_existing_effects split: if_splits prod.splits)

lemma apply_status_effect_one_major:
  assumes "apply_status_effect p st g = (msg, p', g')" and "one_major p"
  shows "one_major p'"
proof -
  note e = apply_status_effect_effects [OF assms(1)]
  from majors_cleared [OF assms(2)]
  have c: "filter (\<lambda>st. st \<in> set major_statuses) (fold remove1 major_statuses (status_effects p)) = []"
    by (simp add: majors_held_def fold_remove_existing_effects)
  show ?thesis
    using assms(2) c unfolding one_major_def majors_held_def e by simp
qed

lemma apply_status_effect_major:
  assumes "apply_status_effect p st g = (msg, p', g')" and "one_major p"
    and "st \<in> set major_statuses" and "st \<notin> set (status_effects p)"
  shows "majors_held p' = [st]"
proof -
  note e = apply_status_effect_effects [OF assms(1)]
  from majors_cleared [OF assms(2)]
  have c: "filter (\<lambda>st. st \<in> set major_statuses) (fold remove1 major_statuses (status_effects p)) = []"
    by (simp add: majors_held_def fold_remove_existing_effects)
  show ?thesis
    using assms(3,4) c unfolding majors_held_def e by simp
qed

lemma apply_status_effect_keeps_confusion:
  assumes "apply_status_effect p st g = (msg, p', g')" and "CONFUSION \<in> set (status_effects p)"
  shows "CONFUSION \<in> set (status_effects p')"
  using assms(2) unfolding apply_status_effect_effects [OF assms(1)]
  by (simp add: fold_remove1_keeps confusion_not_major)

lemma apply_status_effect_evolves:
  "apply_status_effect p st g = (msg, p', g') \<Longrightarrow> evolves p p'"
  by (simp add: evolves_def apply_status_effect_frame apply_status_effect_one_major)

lemma evolves_refl [simp]: "evolves p p"
  by (simp add: evolves_def)

lemma evolves_trans: "evolves p q \<Longrightarrow> evolves q r \<Longrightarrow> evolves p r"
  by (auto simp: evolves_def intro: frame_trans)

lemma evolves_sound: "evolves p q \<Longrightarrow> sound q = sound p"
  by (auto simp: evolves_def sound_def dest: frame_fields)

lemma status_roll_evolves:
  "status_roll d move g = (st, d', g') \<Longrightarrow> evolves d d'"
  by (auto simp: status_roll_def split: prod.splits option.splits if_splits
        dest: apply_status_effect_evolves)

lemma calculate_damage_evolves:
  "calculate_damage db a d move g = Inr (res, d', g') \<Longrightarrow> evolves d d'"
  by (auto simp: calculate_damage_def Let_def split: if_splits prod.splits
        dest: status_roll_evolves)

lemma filter_length_mono:
  assumes "mset xs \<subseteq># mset ys"
  shows "length (filter P xs) \<le> length (filter P ys)"
proof -
  from assms have "filter_mset P (mset xs) \<subseteq># filter_mset P (mset ys)"
    by (rule multiset_filter_mono)
  then have "size (filter_mset P (mset xs)) \<le> size (filter_mset P (mset ys))"
    by (rule size_mset_mono)
  then show ?thesis
    by (simp flip: mset_filter)
qed

lemma can_move_evolves:
  assumes "can_move p g = Inr (r, p', g')"
  shows "evolves p p'"
proof -
  from can_move_props [OF assms]
  have f: "frame p p'" and m: "mset (status_effects p') \<subseteq># mset (status_effects p)"
    by simp_all
  from m have "length (majors_held p') \<le> length (majors_held p)"
    unfolding majors_held_def by (rule filter_length_mono)
  with f show ?thesis
    by (auto simp: evolves_def one_major_def)
qed

lemma deref_upd [simp]:
  "deref (s\<lparr>rand := g\<rparr>) r = deref s r"
  "deref (s\<lparr>current_hp1 := h\<rparr>) r = deref s r"
  "deref (s\<lparr>current_hp2 := h\<rparr>) r = deref s r"
  "deref (s\<lparr>turn_details := td\<rparr>) r = deref s r"
  "deref (s\<lparr>turns_so_far := ts\<rparr>) r = deref s r"
  by (cases r; simp)+

lemma advance_refl [simp]: "advance 0 s s"
  by (simp add: advance_def)

lemma advance_trans: "advance j s t \<Longrightarrow> advance k t u \<Longrightarrow> advance (j + k) s u"
  by (auto simp: advance_def intro: evolves_trans)

lemma advance_upd [simp]:
  "advance k s (append_action m t) = advance k s t"
  "advance k s (t\<lparr>rand := g\<rparr>) = advance k s t"
  "advance k s (t\<lparr>turn_details := td\<rparr>) = advance k s t"
  "advance k (append_action m s) t = advance k s t"
  "advance k (s\<lparr>rand := g\<rparr>) t = advance k s t"
  "advance k (s\<lparr>turn_details := td\<rparr>) t = advance k s t"
  by (simp_all add: advance_def)

lemma advance_hp1: "advance k s t \<Longrightarrow> advance k s (t\<lparr>current_hp1 := max 0 x\<rparr>)"
  by (simp add: advance_def)

lemma advance_hp2: "advance k s t \<Longrightarrow> advance k s (t\<lparr>current_hp2 := max 0 x\<rparr>)"
  by (simp add: advance_def)

lemma advance_store:
  "advance k s t \<Longrightarrow> evolves (deref t r) p \<Longrightarrow> advance k s (store r p t)"
  by (cases r) (auto simp: advance_def intro: evolves_trans)

lemma advance_pokemon1:
  "advance k s t \<Longrightarrow> evolves (pokemon1 t) p \<Longrightarrow> advance k s (t\<lparr>pokemon1 := p\<rparr>)"
  by (auto simp: advance_def intro: evolves_trans)

lemma advance_pokemon2:
  "advance k s t \<Longrightarrow> evolves (pokemon2 t) p \<Longrightarrow> advance k s (t\<lparr>pokemon2 := p\<rparr>)"
  by (auto simp: advance_def intro: evolves_trans)

lemma advance_turns:
  "advance k s t \<Longrightarrow> advance (Suc k) s (t\<lparr>turns_so_far := turns_so_far t @ [td]\<rparr>)"
  by (simp add: advance_def)

lemmas advance_intros =
  advance_hp1 advance_hp2 advance_store advance_pokemon1 advance_pokemon2

lemma first_attack_advance:
  assumes "first_attack db f sec ms s = Inr s'"
  shows "advance 0 s s'"
  using assms
  by (auto simp: first_attack_def Let_def split: sum.splits prod.splits if_splits
        intro!: advance_intros dest!: calculate_damage_evolves)

lemma second_attack_advance:
  assumes "second_attack db f sec ms s = Inr s'"
  shows "advance 0 s s'"
  using assms
  by (auto simp: second_attack_def Let_def split: sum.splits prod.splits if_splits
        intro!: advance_intros dest!: calculate_damage_evolves)

lemma first_turn_advance:
  assumes "first_turn db f sec s = Inr s'"
  shows "advance 0 s s'"
proof -
  from assms obtain can msg p g where
    cm: "can_move (deref s f) (rand s) = Inr ((can, msg), p, g)"
    by (auto simp: first_turn_def split: sum.splits)
  define t where "t = (if msg \<noteq> [] then append_action msg else id) (store f p (s\<lparr>rand := g\<rparr>))"
  have st: "advance 0 s t"
    unfolding t_def using can_move_evolves [OF cm]
    by (auto intro!: advance_store)
  have "s' = t \<or> (\<exists>m. s' = append_action m t) \<or> (\<exists>ms. first_attack db f sec ms t = Inr s')"
    using assms unfolding t_def
    by (auto simp: first_turn_def cm Let_def split: if_splits)
  then show ?thesis
  proof (elim disjE exE)
    assume "s' = t"
    with st show ?thesis by simp
  next
    fix m assume "s' = append_action m t"
    with st show ?thesis by simp
  next
    fix ms assume "first_attack db f sec ms t = Inr s'"
    then have "advance 0 t s'" by (rule first_attack_advance)
    with st have "advance (0 + 0) s s'" by (rule advance_trans)
    then show ?thesis by simp
  qed
qed

lemma second_turn_advance:
  assumes "second_turn db f sec s = Inr s'"
  shows "advance 0 s s'"
proof -
  from assms obtain can msg p g where
    cm: "can_move (deref s sec) (rand s) = Inr ((can, msg), p, g)"
    by (auto simp: second_turn_def split: sum.splits)
  define t where "t = (if msg \<noteq> [] then append_action msg else id) (store sec p (s\<lparr>rand := g\<rparr>))"
  have st: "advance 0 s t"
    unfolding t_def using can_move_evolves [OF cm]
    by (auto intro!: advance_store)
  have "s' = t \<or> (\<exists>m. s' = append_action m t) \<or> (\<exists>ms. second_attack db f sec ms t = Inr s')"
    using assms unfolding t_def
    by (auto simp: second_turn_def cm Let_def split: if_splits)
  then show ?thesis
  proof (elim disjE exE)
    assume "s' = t"
    with st show ?thesis by simp
  next
    fix m assume "s' = append_action m t"
    with st show ?thesis by simp
  next
    fix ms assume "second_attack db f sec ms t = Inr s'"
    then have "advance 0 t s'" by (rule second_attack_advance)
    with st have "advance (0 + 0) s s'" by (rule advance_trans)
    then show ?thesis by simp
  qed
qed

lemma end_of_turn_advance: "advance 0 s (end_of_turn r s)"
  by (auto simp: end_of_turn_def split: prod.splits intro!: advance_intros)

lemma battle_round_advance:
  assumes "battle_round db n s = Inr (s', brk)"
  shows "advance 1 s s'"
proof -
  define s0 where "s0 = s\<lparr>turn_details := \<lparr>turn = n, actions = []\<rparr>\<rparr>"
  obtain f sec where ord: "turn_order s0 = (f, sec)"
    by (cases "turn_order s0")
  from assms obtain s1 where ft: "first_turn db f sec s0 = Inr s1"
    by (auto simp: battle_round_def Let_def s0_def [symmetric] ord split: sum.splits)
  from ft have a1: "advance 0 s0 s1" by (rule first_turn_advance)
  then have a1': "advance 0 s s1" by (simp add: s0_def)
  show ?thesis
  proof (cases "current_hp1 s1 \<le> 0 \<or> current_hp2 s1 \<le> 0")
    case True
    with assms have "s' = s1\<lparr>turns_so_far := turns_so_far s1 @ [turn_details s1]\<rparr>"
      by (auto simp: battle_round_def Let_def s0_def [symmetric] ord ft)
    with advance_turns [OF a1'] show ?thesis by simp
  next
    case False
    with assms obtain s2 where st: "second_turn db f sec s1 = Inr s2"
      and s': "s' = (end_of_turn Ref2 (end_of_turn Ref1 s2))
                 \<lparr>turns_so_far := turns_so_far (end_of_turn Ref2 (end_of_turn Ref1 s2))
                    @ [turn_details (end_of_turn Ref2 (end_of_turn Ref1 s2))]\<rparr>"
      by (auto simp: battle_round_def Let_def s0_def [symmetric] ord ft split: sum.splits)
    from st have "advance 0 s1 s2" by (rule second_turn_advance)
    with a1' have "advance (0 + 0) s s2" by (rule advance_trans)
    from advance_trans [OF this end_of_turn_advance [of s2 Ref1]]
    have "advance (0 + 0 + 0) s (end_of_turn Ref1 s2)" .
    from advance_trans [OF this end_of_turn_advance [of "end_of_turn Ref1 s2" Ref2]]
    have "advance 0 s (end_of_turn Ref2 (end_of_turn Ref1 s2))" by simp
    from advance_turns [OF this] show ?thesis unfolding s' by simp
  qed
qed

lemma battle_loop_advance:
  "battle_loop db n s = Inr s' \<Longrightarrow> \<exists>k. n + k \<le> max (max_turns) n \<and> advance k s s'"
proof (induction db n s rule: battle_loop.induct)
  case (1 db n s)
  show ?case
  proof (cases "current_hp1 s > 0 \<and> current_hp2 s > 0 \<and> n < max_turns")
    case False
    with "1.prems" have "s' = s"
      by (simp add: battle_loop.simps [of db n s])
    then have "n + 0 \<le> max max_turns n \<and> advance 0 s s'" by simp
    then show ?thesis by blast
  next
    case True
    with "1.prems" obtain t brk where r: "battle_round db (n + 1) s = Inr (t, brk)"
      and rest: "if brk then s' = t else battle_loop db (n + 1) t = Inr s'"
      by (auto simp: battle_loop.simps [of db n s] split: sum.splits if_splits)
    from r have a: "advance 1 s t" by (rule battle_round_advance)
    show ?thesis
    proof (cases brk)
      case True
      with rest a have "advance 1 s s'" by simp
      moreover from \<open>current_hp1 s > 0 \<and> current_hp2 s > 0 \<and> n < max_turns\<close>
      have "n + 1 \<le> max max_turns n" by simp
      ultimately show ?thesis by blast
    next
      case False
      with rest have l: "battle_loop db (n + 1) t = Inr s'" by simp
      from "1.IH" [OF \<open>current_hp1 s > 0 \<and> current_hp2 s > 0 \<and> n < max_turns\<close> r refl False l]
      obtain k where k: "n + 1 + k \<le> max max_turns (n + 1)" and b: "advance k t s'"
        by blast
      from advance_trans [OF a b] have "advance (1 + k) s s'" .
      moreover from k \<open>current_hp1 s > 0 \<and> current_hp2 s > 0 \<and> n < max_turns\<close>
      have "n + (1 + k) \<le> max max_turns n" by simp
      ultimately show ?thesis by blast
    qed
  qed
qed

lemma advance_sound:
  "advance k s s' \<Longrightarrow> sound (pokemon1 s') = sound (pokemon1 s) \<and> sound (pokemon2 s') = sound (pokemon2 s)"
  by (simp add: advance_def evolves_sound)

lemma sound_deref: "sound (pokemon1 s) \<Longrightarrow> sound (pokemon2 s) \<Longrightarrow> sound (deref s r)"
  by (cases r) simp_all

lemma random_choice_no_raise: "xs \<noteq> [] \<Longrightarrow> random_choice xs g \<noteq> Inl e"
  by (simp add: random_choice_def)

lemma first_attack_no_raise:
  assumes "ms \<noteq> []" "sound (pokemon1 s)" "sound (pokemon2 s)"
  shows "first_attack db f sec ms s \<noteq> Inl e"
  using assms
  by (auto simp: first_attack_def Let_def random_choice_def calculate_damage_no_raise sound_deref
        split: sum.splits prod.splits)

lemma second_attack_no_raise:
  assumes "ms \<noteq> []" "sound (pokemon1 s)" "sound (pokemon2 s)"
  shows "second_attack db f sec ms s \<noteq> Inl e"
  using assms
  by (auto simp: second_attack_def Let_def random_choice_def calculate_damage_no_raise sound_deref
        split: sum.splits prod.splits)

lemma sound_store:
  "sound (pokemon1 s) \<Longrightarrow> sound (pokemon2 s) \<Longrightarrow> evolves (deref s r) p \<Longrightarrow>
     sound (pokemon1 (store r p s)) \<and> sound (pokemon2 (store r p s))"
  by (cases r) (simp_all add: evolves_sound)

lemma first_turn_no_raise:
  assumes s1: "sound (pokemon1 s)" and s2: "sound (pokemon2 s)"
  shows "first_turn db f sec s \<noteq> Inl e"
proof -
  obtain can msg p g where cm: "can_move (deref s f) (rand s) = Inr ((can, msg), p, g)"
    using can_move_total [of "deref s f" "rand s"] by auto
  define t where "t = (if msg \<noteq> [] then append_action msg else id) (store f p (s\<lparr>rand := g\<rparr>))"
  have snd: "sound (pokemon1 t) \<and> sound (pokemon2 t)"
    unfolding t_def using sound_store [of "s\<lparr>rand := g\<rparr>" f p] s1 s2 can_move_evolves [OF cm]
    by simp
  have t: "(if msg \<noteq> [] then append_action msg (store f p (s\<lparr>rand := g\<rparr>))
            else store f p (s\<lparr>rand := g\<rparr>)) = t"
    by (simp add: t_def)
  from snd have "\<And>ms. ms \<noteq> [] \<Longrightarrow> first_attack db f sec ms t \<noteq> Inl e"
    by (simp add: first_attack_no_raise)
  then show ?thesis
    unfolding first_turn_def cm by (simp add: Let_def t del: store.simps)
qed

lemma second_turn_no_raise:
  assumes s1: "sound (pokemon1 s)" and s2: "sound (pokemon2 s)"
  shows "second_turn db f sec s \<noteq> Inl e"
proof -
  obtain can msg p g where cm: "can_move (deref s sec) (rand s) = Inr ((can, msg), p, g)"
    using can_move_total [of "deref s sec" "rand s"] by auto
  define t where "t = (if msg \<noteq> [] then append_action msg else id) (store sec p (s\<lparr>rand := g\<rparr>))"
  have snd: "sound (pokemon1 t) \<and> sound (pokemon2 t)"
    unfolding t_def using sound_store [of "s\<lparr>rand := g\<rparr>" sec p] s1 s2 can_move_evolves [OF cm]
    by simp
  have t: "(if msg \<noteq> [] then append_action msg (store sec p (s\<lparr>rand := g\<rparr>))
            else store sec p (s\<lparr>rand := g\<rparr>)) = t"
    by (simp add: t_def)
  from snd have "\<And>ms. ms \<noteq> [] \<Longrightarrow> second_attack db f sec ms t \<noteq> Inl e"
    by (simp add: second_attack_no_raise)
  then show ?thesis
    unfolding second_turn_def cm by (simp add: Let_def t del: store.simps)
qed

lemma battle_round_no_raise:
  assumes s1: "sound (pokemon1 s)" and s2: "sound (pokemon2 s)"
  shows "battle_round db n s \<noteq> Inl e"
proof -
  define s0 where "s0 = s\<lparr>turn_details := \<lparr>turn = n, actions = []\<rparr>\<rparr>"
  obtain f sec where ord: "turn_order s0 = (f, sec)"
    by (cases "turn_order s0")
  have snd0: "sound (pokemon1 s0)" "sound (pokemon2 s0)"
    using s1 s2 by (simp_all add: s0_def)
  then have "first_turn db f sec s0 \<noteq> Inl e"
    by (rule first_turn_no_raise)
  moreover have "second_turn db f sec s1 \<noteq> Inl e" if "first_turn db f sec s0 = Inr s1" for s1
  proof -
    from that have "advance 0 s0 s1" by (rule first_turn_advance)
    from advance_sound [OF this] snd0 have "sound (pokemon1 s1)" "sound (pokemon2 s1)"
      by simp_all
    then show ?thesis by (rule second_turn_no_raise)
  qed
  ultimately show ?thesis
    by (auto simp: battle_round_def Let_def s0_def [symmetric] ord split: sum.splits)
qed

lemma battle_loop_no_raise:
  "sound (pokemon1 s) \<Longrightarrow> sound (pokemon2 s) \<Longrightarrow> battle_loop db n s \<noteq> Inl e"
proof (induction db n s rule: battle_loop.induct)
  case (1 db n s)
  show ?case
  proof (cases "current_hp1 s > 0 \<and> current_hp2 s > 0 \<and> n < max_turns")
    case False
    then have "battle_loop db n s = Inr s"
      by (subst battle_loop.simps) auto
    then show ?thesis by simp
  next
    case True
    from "1.prems" have nr: "\<And>e'. battle_round db (n + 1) s \<noteq> Inl e'"
      by (rule battle_round_no_raise)
    then obtain t brk where r: "battle_round db (n + 1) s = Inr (t, brk)"
      by (cases "battle_round db (n + 1) s") auto
    from r have "advance 1 s t" by (rule battle_round_advance)
    from advance_sound [OF this] "1.prems" have snd: "sound (pokemon1 t)" "sound (pokemon2 t)"
      by simp_all
    show ?thesis
    proof (cases brk)
      case True
      with \<open>current_hp1 s > 0 \<and> current_hp2 s > 0 \<and> n < max_turns\<close> r show ?thesis
        by (simp add: battle_loop.simps [of db n s])
    next
      case False
      from "1.IH" [OF \<open>current_hp1 s > 0 \<and> current_hp2 s > 0 \<and> n < max_turns\<close> r refl False snd]
      have "battle_loop db (n + 1) t \<noteq> Inl e" .
      with False \<open>current_hp1 s > 0 \<and> current_hp2 s > 0 \<and> n < max_turns\<close> r show ?thesis
        by (simp add: battle_loop.simps [of db n s])
    qed
  qed
qed

text \<open>The turn of a combatant that may act and has no move of positive power.\<close>

lemma first_turn_forfeit:
  assumes cm: "can_move (deref s actor) (rand s) = Inr ((True, msg), p, g)"
    and nm: "filter (\<lambda>m. 0 < m_power m) (moves (deref s actor)) = []"
  shows "first_turn db actor other s =
           Inr (append_action (no_attack_message (deref s actor))
                  ((if msg \<noteq> [] then append_action msg else id) (store actor p (s\<lparr>rand := g\<rparr>))))"
proof -
  from can_move_props [OF cm] have "frame (deref s actor) p" by simp
  then have eq: "name p = name (deref s actor)" "moves p = moves (deref s actor)"
    by (simp_all add: frame_fields)
  show ?thesis
    using nm by (simp add: first_turn_def cm eq no_attack_message_def Let_def)
qed

lemma second_turn_forfeit:
  assumes cm: "can_move (deref s actor) (rand s) = Inr ((True, msg), p, g)"
    and nm: "filter (\<lambda>m. 0 < m_power m) (moves (deref s actor)) = []"
    and alive: "0 < current_hp1 s" "0 < current_hp2 s"
  shows "second_turn db other actor s =
           Inr (append_action (no_attack_message (deref s actor))
                  ((if msg \<noteq> [] then append_action msg else id) (store actor p (s\<lparr>rand := g\<rparr>))))"
proof -
  from can_move_props [OF cm] have "frame (deref s actor) p" by simp
  then have eq: "name p = name (deref s actor)" "moves p = moves (deref s actor)"
    by (simp_all add: frame_fields)
  show ?thesis
    using nm alive by (simp add: second_turn_def cm eq no_attack_message_def Let_def)
qed

section \<open>Sleep with a counter of 2\<close>

text \<open>
  C2. The claim is that a Sleep counter of exactly 2 blocks two rounds and lets the combatant
  act from the third. The code does not do that. \<^verbatim>\<open>can_move\<close> lowers the counter before it
  tests it: with Sleep and a counter of 2, the first evaluation lowers the counter to 1 and
  blocks; the second lowers it to 0, removes Sleep and returns \<^verbatim>\<open>True\<close> with the message
  "woke up!". The combatant is blocked for one round and acts in the second. The same
  order of decrement and test makes a Sleep whose counter is 1 (the lowest value that
  \<^verbatim>\<open>apply_status_effect\<close> draws for its "1-3 turns") block no round at all.
\<close>

theorem sleep_two_wakes_in_second_round:
  "can_move snorlax zero_draws
     = Inr ((False, ''snorlax is fast asleep!''), snorlax\<lparr>status_turns := [SLEEP \<mapsto> 1]\<rparr>, zero_draws)
   \<and> can_move (snorlax\<lparr>status_turns := [SLEEP \<mapsto> 1]\<rparr>) zero_draws
     = Inr ((True, ''snorlax woke up!''),
            snorlax\<lparr>status_effects := [], status_turns := Map.empty\<rparr>, zero_draws)
   \<and> \<not> (\<exists>msg p g. can_move (snorlax\<lparr>status_turns := [SLEEP \<mapsto> 1]\<rparr>) zero_draws
                     = Inr ((False, msg), p, g))"
  by (simp add: can_move_def snorlax_def can_move_loop_sleep dict_get_def list_remove_def)

section \<open>The minimum-damage floor\<close>

lemma py_int_zero [simp]: "py_int 0 = 0"
  by (simp add: py_int_def)

lemma modify_damage_zero [simp]: "modify_damage p 0 b = 0"
  by (simp add: modify_damage_def)

lemma damage_roll_immune:
  "damage_roll 0 a move atk dfn phys g = (dmg, c, h) \<Longrightarrow> dmg = 0"
  by (auto simp: damage_roll_def Let_def split_beta)

lemma calculate_damage_positive:
  assumes "0 < m_power move"
    and "calculate_damage db a d move g = Inr ((damage, crit, st), d', g')"
  shows "1 \<le> damage"
  using assms
  by (auto simp: calculate_damage_def Let_def split: if_splits prod.splits)

lemma calculate_damage_immune:
  assumes "0 < m_power move"
    and "get_type_effectiveness db (m_type move) (types d) = 0"
    and "calculate_damage db a d move g = Inr ((damage, crit, st), d', g')"
  shows "damage = 1"
  using assms
  by (auto simp: calculate_damage_def Let_def split: if_splits prod.splits
        dest!: damage_roll_immune)

lemma calculate_damage_raises_only:
  "calculate_damage db a d move g = Inl e \<Longrightarrow>
     e = ZeroDivisionError
     \<and> (if m_damage_class move = ''physical'' then defense d else special_defense d) = 0"
  by (simp add: calculate_damage_def Let_def split: if_splits prod.splits)

text \<open>
  C6. For a move with positive power, every result that \<^verbatim>\<open>_calculate_damage\<close> returns has a
  damage of at least 1, and a damage of exactly 1 when the type effectiveness is 0: the
  floor \<^verbatim>\<open>max(1, ...)\<close> is applied after all multipliers. The call does return a result
  whenever the defender's defense and special defense are not 0; its only exception is the
  division by a defense stat of 0.
\<close>

theorem calculate_damage_floor:
  assumes "0 < m_power move"
  shows "(\<forall>damage crit st d' g'.
            calculate_damage db a d move g = Inr ((damage, crit, st), d', g')
            \<longrightarrow> 1 \<le> damage
                \<and> (get_type_effectiveness db (m_type move) (types d) = 0 \<longrightarrow> damage = 1))
         \<and> (sound d \<longrightarrow> (\<exists>res. calculate_damage db a d move g = Inr res))
         \<and> (\<forall>e. calculate_damage db a d move g = Inl e \<longrightarrow> e = ZeroDivisionError \<and> \<not> sound d)"
proof (intro conjI allI impI)
  fix damage crit st d' g'
  assume r: "calculate_damage db a d move g = Inr ((damage, crit, st), d', g')"
  show "1 \<le> damage"
    using assms r by (rule calculate_damage_positive)
  assume "get_type_effectiveness db (m_type move) (types d) = 0"
  with assms show "damage = 1"
    using r by (rule calculate_damage_immune)
next
  assume "sound d"
  then have "\<And>e. calculate_damage db a d move g \<noteq> Inl e"
    by (rule calculate_damage_no_raise)
  then show "\<exists>res. calculate_damage db a d move g = Inr res"
    by (cases "calculate_damage db a d move g") auto
next
  fix e
  assume l: "calculate_damage db a d move g = Inl e"
  then show "e = ZeroDivisionError"
    by (simp add: calculate_damage_raises_only)
  from l show "\<not> sound d"
    using calculate_damage_no_raise by blast
qed

text \<open>
  Snorlax's Body Slam on Gengar, with an empty type table, deals 130; Gengar's Lick on
  Snorlax, with the table that makes Ghost moves ineffective on Normal, deals 1.
\<close>

theorem calculate_damage_floor_witness:
  "0 < m_power (hd (moves snorlax))
   \<and> sound gengar
   \<and> calculate_damage Map.empty snorlax gengar (hd (moves snorlax)) zero_draws
       = Inr ((130, True, None), gengar, zero_draws)
   \<and> 0 < m_power (hd (moves gengar))
   \<and> get_type_effectiveness ghost_table (m_type (hd (moves gengar))) (types snorlax) = 0
   \<and> calculate_damage ghost_table gengar snorlax (hd (moves gengar)) zero_draws
       = Inr ((1, True, None), snorlax, zero_draws)"
proof -
  have p1: "0 < m_power (hd (moves snorlax))"
    by (simp add: snorlax_def)
  have p2: "0 < m_power (hd (moves gengar))"
    by (simp add: gengar_def)
  have s: "sound gengar"
    by (simp add: sound_def gengar_def)
  have e1: "calculate_damage Map.empty snorlax gengar (hd (moves snorlax)) zero_draws
       = Inr ((130, True, None), gengar, zero_draws)"
    by (simp add: calculate_damage_def snorlax_def gengar_def get_type_effectiveness_def
      damage_roll_def status_roll_def random_random_def random_uniform_def zero_draws_def
      rng_tail_def py_int_def modify_damage_def get_move_status_chance_def move_status_map_def
      lower_def lower_char_def StatusEffect_defs Let_def floor_eq_iff)
  have z: "get_type_effectiveness ghost_table (m_type (hd (moves gengar))) (types snorlax) = 0"
    by (simp add: get_type_effectiveness_def ghost_table_def gengar_def snorlax_def)
  have e2: "calculate_damage ghost_table gengar snorlax (hd (moves gengar)) zero_draws
       = Inr ((1, True, None), snorlax, zero_draws)"
    by (simp add: calculate_damage_def snorlax_def gengar_def get_type_effectiveness_def
      damage_roll_def status_roll_def random_random_def random_uniform_def zero_draws_def
      rng_tail_def py_int_def modify_damage_def get_move_status_chance_def move_status_map_def
      lower_def lower_char_def StatusEffect_defs Let_def ghost_table_def)
  note t1 = calculate_damage_floor [OF p1, of Map.empty snorlax gengar zero_draws]
  note t2 = calculate_damage_floor [OF p2, of ghost_table gengar snorlax zero_draws]
  from t1 have "\<exists>res. calculate_damage Map.empty snorlax gengar (hd (moves snorlax)) zero_draws
      = Inr res"
    using s by blast
  moreover from t2 e2 z have "(1 :: int) = 1"
    by blast
  ultimately show ?thesis
    using p1 p2 s e1 z e2 by blast
qed

section \<open>End-of-round status damage\<close>

lemma status_damage_loop_fst:
  "fst (status_damage_loop p xs d ms) =
     d + int (count_list xs BURN) * max 1 (max_hp p div 16)
       + int (count_list xs POISON) * max 1 (max_hp p div 8)"
proof (induction xs arbitrary: d ms)
  case Nil
  show ?case by simp
next
  case (Cons status rest)
  have ne: "BURN \<noteq> POISON" by (simp add: BURN_def POISON_def)
  show ?case
  proof (cases "status = BURN")
    case True
    with ne show ?thesis by (simp add: Cons.IH Let_def algebra_simps)
  next
    case False
    then show ?thesis by (simp add: Cons.IH Let_def algebra_simps)
  qed
qed

text \<open>
  C7. The damage returned by \<^verbatim>\<open>process_status_damage\<close> is \<open>max 1 (max_hp div 16)\<close> for each
  burn entry of the status list plus \<open>max 1 (max_hp div 8)\<close> for each poison entry: the burn
  amount alone when only burned, the poison amount alone when only poisoned, their sum
  when both are held, 0 with neither. For max HP 1, 15, 16, 17 and 200 burn deals
  1, 1, 1, 1 and 12 and poison deals 1, 1, 2, 2 and 25.
\<close>

theorem process_status_damage_amount:
  "fst (process_status_damage p) =
       int (count_list (status_effects p) BURN) * max 1 (max_hp p div 16)
     + int (count_list (status_effects p) POISON) * max 1 (max_hp p div 8)
   \<and> fst (process_status_damage (p\<lparr>status_effects := [BURN]\<rparr>)) = max 1 (max_hp p div 16)
   \<and> fst (process_status_damage (p\<lparr>status_effects := [POISON]\<rparr>)) = max 1 (max_hp p div 8)
   \<and> fst (process_status_damage (p\<lparr>status_effects := [BURN, POISON]\<rparr>))
       = max 1 (max_hp p div 16) + max 1 (max_hp p div 8)
   \<and> fst (process_status_damage (p\<lparr>status_effects := []\<rparr>)) = 0
   \<and> map (\<lambda>h. fst (process_status_damage (p\<lparr>max_hp := h, status_effects := [BURN]\<rparr>)))
        [1, 15, 16, 17, 200] = [1, 1, 1, 1, 12]
   \<and> map (\<lambda>h. fst (process_status_damage (p\<lparr>max_hp := h, status_effects := [POISON]\<rparr>)))
        [1, 15, 16, 17, 200] = [1, 1, 2, 2, 25]"
proof -
  have ne: "BURN \<noteq> POISON" by (simp add: BURN_def POISON_def)
  have gen: "\<And>q. fst (process_status_damage q) =
       int (count_list (status_effects q) BURN) * max 1 (max_hp q div 16)
     + int (count_list (status_effects q) POISON) * max 1 (max_hp q div 8)"
    by (simp add: process_status_damage_def split_beta status_damage_loop_fst)
  show ?thesis
    using ne by (simp add: gen)
qed

section \<open>The order of a round\<close>




section \<open>A turn without a usable move\<close>

text \<open>
  C9. When \<^verbatim>\<open>can_move\<close> lets a combatant act and none of its moves has positive power,
  its turn, as first or as second of the round, returns without raising: neither
  \<^verbatim>\<open>current_hp1\<close> nor \<^verbatim>\<open>current_hp2\<close> changes, and the log of the round grows by the
  status message, if any, and by the "has no moves and cannot attack!" or "has no attacking
  moves and struggles helplessly!" message of the combatant.
\<close>

theorem no_usable_move_forfeits:
  assumes "can_move (deref s actor) (rand s) = Inr ((True, msg), p, g)"
    and "filter (\<lambda>m. 0 < m_power m) (moves (deref s actor)) = []"
  shows "(\<exists>s'. first_turn db actor other s = Inr s'
            \<and> current_hp1 s' = current_hp1 s \<and> current_hp2 s' = current_hp2 s
            \<and> actions (turn_details s')
                = actions (turn_details s) @ (if msg \<noteq> [] then [msg] else [])
                    @ [no_attack_message (deref s actor)])
       \<and> (0 < current_hp1 s \<and> 0 < current_hp2 s \<longrightarrow>
            (\<exists>s'. second_turn db other actor s = Inr s'
               \<and> current_hp1 s' = current_hp1 s \<and> current_hp2 s' = current_hp2 s
               \<and> actions (turn_details s')
                   = actions (turn_details s) @ (if msg \<noteq> [] then [msg] else [])
                       @ [no_attack_message (deref s actor)]))"
proof (intro conjI impI)
  show "\<exists>s'. first_turn db actor other s = Inr s'
            \<and> current_hp1 s' = current_hp1 s \<and> current_hp2 s' = current_hp2 s
            \<and> actions (turn_details s')
                = actions (turn_details s) @ (if msg \<noteq> [] then [msg] else [])
                    @ [no_attack_message (deref s actor)]"
    by (simp add: first_turn_forfeit [OF assms])
next
  assume "0 < current_hp1 s \<and> 0 < current_hp2 s"
  then show "\<exists>s'. second_turn db other actor s = Inr s'
               \<and> current_hp1 s' = current_hp1 s \<and> current_hp2 s' = current_hp2 s
               \<and> actions (turn_details s')
                   = actions (turn_details s) @ (if msg \<noteq> [] then [msg] else [])
                       @ [no_attack_message (deref s actor)]"
    by (simp add: second_turn_forfeit [OF assms])
qed

text \<open>
  A kakuna whose only move is harden, of power 0, forfeits its turn against raichu, as first
  and as second of the round.
\<close>

theorem no_usable_move_forfeits_witness:
  "can_move (deref (initial_battle raichu kakuna half_draws) Ref2)
       (rand (initial_battle raichu kakuna half_draws))
     = Inr ((True, []), kakuna, half_draws)
   \<and> filter (\<lambda>m. 0 < m_power m) (moves (deref (initial_battle raichu kakuna half_draws) Ref2)) = []
   \<and> 0 < current_hp1 (initial_battle raichu kakuna half_draws)
   \<and> 0 < current_hp2 (initial_battle raichu kakuna half_draws)
   \<and> (\<exists>s'. first_turn Map.empty Ref2 Ref1 (initial_battle raichu kakuna half_draws) = Inr s'
         \<and> current_hp1 s' = 120 \<and> current_hp2 s' = 105
         \<and> actions (turn_details s')
             = [''kakuna has no attacking moves and struggles helplessly!''])
   \<and> (\<exists>s'. second_turn Map.empty Ref1 Ref2 (initial_battle raichu kakuna half_draws) = Inr s'
         \<and> current_hp1 s' = 120 \<and> current_hp2 s' = 105
         \<and> actions (turn_details s')
             = [''kakuna has no attacking moves and struggles helplessly!''])"
proof -
  let ?s = "initial_battle raichu kakuna half_draws"
  have cm: "can_move (deref ?s Ref2) (rand ?s) = Inr ((True, []), kakuna, half_draws)"
    by (simp add: initial_battle_def can_move_def kakuna_def)
  have nm: "filter (\<lambda>m. 0 < m_power m) (moves (deref ?s Ref2)) = []"
    by (simp add: initial_battle_def kakuna_def)
  have hp: "current_hp1 ?s = 120" "current_hp2 ?s = 105" "actions (turn_details ?s) = []"
    by (simp_all add: initial_battle_def raichu_def kakuna_def)
  have msg: "no_attack_message (deref ?s Ref2)
               = ''kakuna has no attacking moves and struggles helplessly!''"
    by (simp add: initial_battle_def kakuna_def no_attack_message_def)
  from no_usable_move_forfeits [OF cm nm, of Map.empty Ref1]
  have "(\<exists>s'. first_turn Map.empty Ref2 Ref1 ?s = Inr s'
            \<and> current_hp1 s' = 120 \<and> current_hp2 s' = 105
            \<and> actions (turn_details s')
                = [''kakuna has no attacking moves and struggles helplessly!''])
       \<and> (\<exists>s'. second_turn Map.empty Ref1 Ref2 ?s = Inr s'
               \<and> current_hp1 s' = 120 \<and> current_hp2 s' = 105
               \<and> actions (turn_details s')
                   = [''kakuna has no attacking moves and struggles helplessly!''])"
    unfolding hp msg by simp
  with cm nm hp show ?thesis by simp
qed

section \<open>The move list of a prepared combatant\<close>

text \<open>
  C10. \<^verbatim>\<open>prepare_pokemon_for_battle\<close> takes the first four supplied moves and then drops those
  whose power is not truthy. So the prepared move list has at most four entries, every
  entry has nonzero power, and when none of the first four supplied moves has a truthy
  power the list is empty, whatever the later moves are.
\<close>

theorem prepare_moves_truncated_then_filtered:
  "moves (prepare_pokemon_for_battle data)
     = map battle_move (filter (\<lambda>move. truthy (md_power move)) (take 4 (d_moves data)))
   \<and> length (moves (prepare_pokemon_for_battle data)) \<le> 4
   \<and> (\<forall>m \<in> set (moves (prepare_pokemon_for_battle data)). m_power m \<noteq> 0)
   \<and> ((\<forall>move \<in> set (take 4 (d_moves data)). \<not> truthy (md_power move))
        \<longrightarrow> moves (prepare_pokemon_for_battle data) = [])"
proof -
  have m: "moves (prepare_pokemon_for_battle data)
     = map battle_move (filter (\<lambda>move. truthy (md_power move)) (take 4 (d_moves data)))"
    by (simp add: prepare_pokemon_for_battle_def Let_def)
  have len: "length (filter (\<lambda>move. truthy (md_power move)) (take 4 (d_moves data))) \<le> 4"
    by (rule order_trans [OF length_filter_le]) simp
  have pw: "\<And>move. truthy (md_power move) \<Longrightarrow> m_power (battle_move move) \<noteq> 0"
    by (auto simp: truthy_def battle_move_def or_else_def split: option.splits)
  have emp: "(\<forall>move \<in> set (take 4 (d_moves data)). \<not> truthy (md_power move))
        \<Longrightarrow> filter (\<lambda>move. truthy (md_power move)) (take 4 (d_moves data)) = []"
    by (simp add: filter_empty_conv)
  show ?thesis
    using len pw emp by (auto simp: m)
qed

text \<open>
  Metapod's fifth move is damaging and its first four are not: it enters battle without a
  move. Pikachu keeps the two damaging moves among its first four and loses the fifth.
\<close>

theorem prepare_moves_truncated_then_filtered_witness:
  "map (\<lambda>move. truthy (md_power move)) (d_moves metapod_data) = [False, False, False, False, True]
   \<and> moves (prepare_pokemon_for_battle metapod_data) = []
   \<and> map m_name (moves (prepare_pokemon_for_battle pikachu_data)) = [''thunder-shock'', ''quick-attack'']
   \<and> map m_power (moves (prepare_pokemon_for_battle pikachu_data)) = [40, 40]"
  using prepare_moves_truncated_then_filtered [of metapod_data]
    prepare_moves_truncated_then_filtered [of pikachu_data]
  by (simp add: metapod_data_def pikachu_data_def truthy_def battle_move_def or_else_def)

end
